theory Spec2Isabelle
  imports Complex_Main "HOL-Library.Sublist"
begin

section \<open>Python values: exceptions, standard output, recorded calls\<close>

text \<open>
  The service of \<^verbatim>\<open>api/core/rag_services.py\<close> is an orchestration layer: it owns a
  credential check, a prompt template, a helper that joins retrieved chunks, and one
  method that pipes a question through retrieval, prompt formatting, the chat model and
  an output parser, inside a \<^verbatim>\<open>try/except Exception\<close>.

  Exceptions are values. The handler of \<^verbatim>\<open>answer_user_query\<close> names the class
  \<^verbatim>\<open>Exception\<close>, so the model keeps the one distinction the handler makes: whether
  an exception object is an instance of \<^verbatim>\<open>Exception\<close>. In Python
  \<^verbatim>\<open>KeyboardInterrupt\<close> and \<^verbatim>\<open>SystemExit\<close> derive from
  \<^verbatim>\<open>BaseException\<close> only. \<open>UpstreamError\<close> stands for any \<^verbatim>\<open>Exception\<close>
  subclass raised by the embedding, index, model or parser libraries or by the runtime;
  its string names the exception object.
\<close>

datatype exn =
    ValueError string
  | KeyError string
  | UpstreamError string
  | KeyboardInterrupt
  | SystemExit

fun isinstance_Exception :: "exn \<Rightarrow> bool" where
  "isinstance_Exception (ValueError m) = True"
| "isinstance_Exception (KeyError k) = True"
| "isinstance_Exception (UpstreamError m) = True"
| "isinstance_Exception KeyboardInterrupt = False"
| "isinstance_Exception SystemExit = False"

subsection \<open>The objects the constructor builds\<close>

text \<open>
  Each library object is represented by the arguments it was constructed with: the
  service never reads anything else from it.  \<open>temperature\<close> holds the decimal
  literal \<^verbatim>\<open>0.3\<close> of the source as a rational; the service hands it to the client
  and does no arithmetic on it.
\<close>

record document =
  page_content :: string
  metadata :: "(string \<times> string) list"

record embeddings =
  emb_model :: string
  emb_google_api_key :: string

record vectordb =
  persist_directory :: string
  embedding_function :: embeddings

record retriever =
  vectorstore :: vectordb
  search_kwargs_k :: nat

record llm =
  llm_model :: string
  llm_google_api_key :: string
  temperature :: rat

record RAGService =
  api_key :: string
  embeddings :: embeddings
  vectordb :: vectordb
  retriever :: retriever
  llm :: llm
  rag_prompt :: string

text \<open>
  The world outside the service object: what has been printed, and which calls to the
  retriever and to the chat model have been made, with their arguments (what a
  capturing stub would record).
\<close>

datatype call =
    RetrieverCall retriever string
  | ModelCall llm string

record world =
  stdout :: string
  calls :: "call list"

text \<open>
  The third-party libraries and the Python runtime are parameters.  A constructor may
  refuse its arguments (\<open>Some e\<close>); the retriever, the chat model and the output parser
  each return a value or raise.  The chat model's reply is kept as the text of its
  message.  \<open>exn_str\<close> is \<^verbatim>\<open>str(e)\<close> for an exception object whose class defines its
  own text: it returns the text or raises.  \<open>stdout_failure contents text\<close> says
  whether writing \<open>text\<close> to a standard output that holds \<open>contents\<close> is refused (a
  closed stream, a text the stream's encoding cannot represent): \<open>None\<close> when the write
  goes through, otherwise the exception raised and what the stream holds afterwards.
\<close>

record library =
  embeddings_error :: "embeddings \<Rightarrow> exn option"
  chroma_error :: "vectordb \<Rightarrow> exn option"
  llm_error :: "llm \<Rightarrow> exn option"
  retriever_invoke :: "retriever \<Rightarrow> string \<Rightarrow> exn + document list"
  llm_invoke :: "llm \<Rightarrow> string \<Rightarrow> exn + string"
  parser_invoke :: "string \<Rightarrow> exn + string"
  exn_str :: "exn \<Rightarrow> exn + string"
  stdout_failure :: "string \<Rightarrow> string \<Rightarrow> (exn \<times> string) option"

text \<open>
  \<open>py_str lib e\<close> is the text \<^verbatim>\<open>f"{e}"\<close> interpolates, or the exception raised
  while computing it.  A built-in \<^verbatim>\<open>ValueError\<close> made from one message prints that
  message.  A \<^verbatim>\<open>KeyError\<close> prints the \<^verbatim>\<open>repr\<close> of its key, and a library's
  exception prints what its class decides: both are left to \<open>exn_str\<close>.
\<close>

definition py_str :: "library \<Rightarrow> exn \<Rightarrow> exn + string" where
  "py_str lib e = (case e of ValueError m \<Rightarrow> Inr m | _ \<Rightarrow> exn_str lib e)"

text \<open>
  \<^verbatim>\<open>print(s)\<close> writes \<open>s\<close> and a newline to standard output; it returns \<open>None\<close>,
  or \<open>Some e\<close> when the write raises \<open>e\<close>.
\<close>

definition print :: "library \<Rightarrow> string \<Rightarrow> world \<Rightarrow> exn option \<times> world" where
  "print lib s w =
     (case stdout_failure lib (stdout w) (s @ ''\<newline>'') of
        None \<Rightarrow> (None, w\<lparr>stdout := stdout w @ s @ ''\<newline>''\<rparr>)
      | Some (e, left) \<Rightarrow> (Some e, w\<lparr>stdout := left\<rparr>))"

section \<open>Construction\<close>

definition VECTOR_DB_DIR :: string where
  "VECTOR_DB_DIR = ''vector_db''"

definition rag_prompt_template :: string where
  "rag_prompt_template =
     ''\<newline>'' @
     ''        You are \"LawGeeks\", a specialized AI assistant. Your goal is to answer a user's specific question about their legal document, using *only* the provided context.\<newline>'' @
     ''        \<newline>'' @
     ''        You have been given three pieces of information:\<newline>'' @
     ''        1.  **THE USER'S DOCUMENT**: The full text of their agreement.\<newline>'' @
     ''        2.  **RELEVANT LEGAL CONTEXT**: Snippets from Indian law (e.g., The Contract Act, RERA) that are relevant to the user's question.\<newline>'' @
     ''        3.  **THE USER'S QUESTION**: The specific question the user asked.\<newline>'' @
     ''\<newline>'' @
     ''        **INSTRUCTIONS:**\<newline>'' @
     ''        1.  First, analyze the **USER'S DOCUMENT** to find clauses that relate to the **USER'S QUESTION**.\<newline>'' @
     ''        2.  Next, use the **RELEVANT LEGAL CONTEXT** to understand the standard legal position or definitions.\<newline>'' @
     ''        3.  Combine these insights to provide a clear, simple, and direct answer.\<newline>'' @
     ''        4.  If the user's document is silent on the issue, say so.\<newline>'' @
     ''        5.  If the user's document *contradicts* the legal context, point this out (e.g., \"Your document states X, which is unusual as the standard legal position is Y...\").\<newline>'' @
     ''        6.  **DO NOT** make up information. If the answer cannot be found in the provided texts, state that you cannot answer.\<newline>'' @
     ''        7.  **DO NOT** provide legal advice. Frame your answer as \"This clause appears to mean...\" or \"This document states...\".\<newline>'' @
     ''\<newline>'' @
     ''        ---\<newline>'' @
     ''        **THE USER'S DOCUMENT:**\<newline>'' @
     ''        {document_context}\<newline>'' @
     ''        ---\<newline>'' @
     ''        **RELEVANT LEGAL CONTEXT:**\<newline>'' @
     ''        {rag_context}\<newline>'' @
     ''        ---\<newline>'' @
     ''        **THE USER'S QUESTION:**\<newline>'' @
     ''        {question}\<newline>'' @
     ''        ---\<newline>'' @
     ''\<newline>'' @
     ''        **Your Answer:**\<newline>'' @
     ''        ''"

definition GoogleGenerativeAIEmbeddings :: "library \<Rightarrow> embeddings \<Rightarrow> exn + embeddings" where
  "GoogleGenerativeAIEmbeddings lib args =
     (case embeddings_error lib args of Some e \<Rightarrow> Inl e | None \<Rightarrow> Inr args)"

definition Chroma :: "library \<Rightarrow> vectordb \<Rightarrow> exn + vectordb" where
  "Chroma lib args = (case chroma_error lib args of Some e \<Rightarrow> Inl e | None \<Rightarrow> Inr args)"

definition as_retriever :: "vectordb \<Rightarrow> nat \<Rightarrow> retriever" where
  "as_retriever db k = \<lparr>vectorstore = db, search_kwargs_k = k\<rparr>"

definition ChatGoogleGenerativeAI :: "library \<Rightarrow> llm \<Rightarrow> exn + llm" where
  "ChatGoogleGenerativeAI lib args =
     (case llm_error lib args of Some e \<Rightarrow> Inl e | None \<Rightarrow> Inr args)"

text \<open>
  \<^verbatim>\<open>os.getenv\<close> yields \<^verbatim>\<open>None\<close> for an unset variable; \<^verbatim>\<open>not self.api_key\<close> is
  true for \<^verbatim>\<open>None\<close> and for the empty string.  \<open>init\<close> is \<^verbatim>\<open>RAGService.__init__\<close>:
  \<open>Inl\<close> is the exception that leaves the constructor, \<open>Inr\<close> the constructed object.
\<close>

definition init :: "library \<Rightarrow> (string \<rightharpoonup> string) \<Rightarrow> exn + RAGService" where
  "init lib environ =
     (case environ ''GOOGLE_API_KEY'' of
        None \<Rightarrow> Inl (ValueError ''GOOGLE_API_KEY not set.'')
      | Some key \<Rightarrow>
          if key = [] then Inl (ValueError ''GOOGLE_API_KEY not set.'')
          else
            (case GoogleGenerativeAIEmbeddings lib
                    \<lparr>emb_model = ''models/embedding-001'', emb_google_api_key = key\<rparr> of
               Inl e \<Rightarrow> Inl e
             | Inr emb \<Rightarrow>
                 (case Chroma lib
                         \<lparr>persist_directory = VECTOR_DB_DIR, embedding_function = emb\<rparr> of
                    Inl e \<Rightarrow> Inl e
                  | Inr db \<Rightarrow>
                      (case ChatGoogleGenerativeAI lib
                              \<lparr>llm_model = ''models/gemini-pro-latest'',
                               llm_google_api_key = key, temperature = 0.3\<rparr> of
                         Inl e \<Rightarrow> Inl e
                       | Inr l \<Rightarrow>
                           Inr \<lparr>api_key = key, embeddings = emb, vectordb = db,
                                retriever = as_retriever db 3, llm = l,
                                rag_prompt = rag_prompt_template\<rparr>))))"

section \<open>The context formatter\<close>

text \<open>\<open>str_join sep xs\<close> is Python's \<^verbatim>\<open>sep.join(xs)\<close>.\<close>

fun str_join :: "string \<Rightarrow> string list \<Rightarrow> string" where
  "str_join sep [] = []"
| "str_join sep [x] = x"
| "str_join sep (x # y # ys) = x @ sep @ str_join sep (y # ys)"

definition format_docs :: "document list \<Rightarrow> string" where
  "format_docs docs = str_join ''\<newline>\<newline>---\<newline>\<newline>'' (map page_content docs)"

section \<open>Prompt assembly\<close>

text \<open>
  The prompt object formats its template the way Python's \<^verbatim>\<open>str.format\<close> does with
  keyword arguments: text is copied, \<^verbatim>\<open>{{\<close> and \<^verbatim>\<open>}}\<close> are escaped braces, and a
  replacement field \<^verbatim>\<open>{name}\<close> is replaced by the value bound to \<open>name\<close>.  A
  substituted value is never scanned again.  Only plain field names are modelled (no
  conversion, format specification or attribute access), which is all the template of
  this service uses.  \<open>field_name cs\<close> splits \<open>cs\<close> at its first closing brace.
\<close>

fun field_name :: "string \<Rightarrow> (string \<times> string) option" where
  "field_name [] = None"
| "field_name (c # cs) =
     (if c = CHR ''}'' then Some ([], cs)
      else (case field_name cs of None \<Rightarrow> None | Some (n, r) \<Rightarrow> Some (c # n, r)))"

function py_format :: "string \<Rightarrow> (string \<rightharpoonup> string) \<Rightarrow> exn + string" where
  "py_format [] vars = Inr []"
| "py_format (c # cs) vars =
     (if c = CHR ''{'' then
        (case cs of
           [] \<Rightarrow> Inl (ValueError ''Single '{' encountered in format string'')
         | d # ds \<Rightarrow>
             if d = CHR ''{'' then
               (case py_format ds vars of Inl e \<Rightarrow> Inl e | Inr out \<Rightarrow> Inr (CHR ''{'' # out))
             else
               (case field_name cs of
                  None \<Rightarrow> Inl (ValueError ''expected '}' before end of string'')
                | Some (name, rest) \<Rightarrow>
                    (case vars name of
                       None \<Rightarrow> Inl (KeyError name)
                     | Some v \<Rightarrow>
                         (case py_format rest vars of
                            Inl e \<Rightarrow> Inl e
                          | Inr out \<Rightarrow> Inr (v @ out)))))
      else if c = CHR ''}'' then
        (case cs of
           [] \<Rightarrow> Inl (ValueError ''Single '}' encountered in format string'')
         | d # ds \<Rightarrow>
             if d = CHR ''}'' then
               (case py_format ds vars of Inl e \<Rightarrow> Inl e | Inr out \<Rightarrow> Inr (CHR ''}'' # out))
             else Inl (ValueError ''Single '}' encountered in format string''))
      else
        (case py_format cs vars of Inl e \<Rightarrow> Inl e | Inr out \<Rightarrow> Inr (c # out)))"
  by pat_completeness auto
termination
proof -
  have shorter: "length r < length cs" if "field_name cs = Some (n, r)" for cs n r
    using that by (induction cs arbitrary: n r) (auto split: if_splits option.splits)
  show ?thesis
    by (relation "measure (\<lambda>(cs, vars). length cs)")
       (auto simp del: field_name.simps dest: shorter)
qed

section \<open>The answer pipeline\<close>

text \<open>
  A runnable takes an input and the world and either returns a value or raises, leaving
  a new world.  \<open>pipe\<close> is the operator \<^verbatim>\<open>|\<close> of the source: the second stage runs
  only if the first returned.
\<close>

type_synonym ('a, 'b) runnable = "'a \<Rightarrow> world \<Rightarrow> (exn + 'b) \<times> world"

definition pipe :: "('a, 'b) runnable \<Rightarrow> ('b, 'c) runnable \<Rightarrow> ('a, 'c) runnable" where
  "pipe f g = (\<lambda>x w. case f x w of (Inl e, w') \<Rightarrow> (Inl e, w') | (Inr y, w') \<Rightarrow> g y w')"

definition itemgetter :: "string \<Rightarrow> (string \<rightharpoonup> string, string) runnable" where
  "itemgetter key =
     (\<lambda>d w. case d key of None \<Rightarrow> (Inl (KeyError key), w) | Some v \<Rightarrow> (Inr v, w))"

definition retriever_runnable :: "library \<Rightarrow> retriever \<Rightarrow> (string, document list) runnable" where
  "retriever_runnable lib r =
     (\<lambda>query w. (retriever_invoke lib r query, w\<lparr>calls := calls w @ [RetrieverCall r query]\<rparr>))"

definition format_docs_runnable :: "(document list, string) runnable" where
  "format_docs_runnable = (\<lambda>docs w. (Inr (format_docs docs), w))"

definition prompt_runnable :: "string \<Rightarrow> (string \<rightharpoonup> string, string) runnable" where
  "prompt_runnable template = (\<lambda>vars w. (py_format template vars, w))"

definition llm_runnable :: "library \<Rightarrow> llm \<Rightarrow> (string, string) runnable" where
  "llm_runnable lib l =
     (\<lambda>prompt w. (llm_invoke lib l prompt, w\<lparr>calls := calls w @ [ModelCall l prompt]\<rparr>))"

definition StrOutputParser :: "library \<Rightarrow> (string, string) runnable" where
  "StrOutputParser lib = (\<lambda>message w. (parser_invoke lib message, w))"

text \<open>
  A dictionary of runnables is itself a runnable: every entry is run on the same input
  and the results are collected under the entries' keys.  (The library runs the entries
  on a thread pool; here only the \<^verbatim>\<open>rag_context\<close> entry touches the world, so the
  order below is not observable.)
\<close>

fun run_parallel ::
  "(string \<times> ('a, string) runnable) list \<Rightarrow> ('a, string \<rightharpoonup> string) runnable" where
  "run_parallel [] x w = (Inr Map.empty, w)"
| "run_parallel ((key, r) # steps) x w =
     (case r x w of
        (Inl e, w') \<Rightarrow> (Inl e, w')
      | (Inr v, w') \<Rightarrow>
          (case run_parallel steps x w' of
             (Inl e, w'') \<Rightarrow> (Inl e, w'')
           | (Inr m, w'') \<Rightarrow> (Inr (m(key \<mapsto> v)), w'')))"

definition rag_chain :: "library \<Rightarrow> RAGService \<Rightarrow> (string \<rightharpoonup> string, string) runnable" where
  "rag_chain lib self =
     pipe
       (pipe
          (pipe
             (run_parallel
                [(''rag_context'',
                    pipe (pipe (itemgetter ''question'') (retriever_runnable lib (retriever self)))
                      format_docs_runnable),
                 (''question'', itemgetter ''question''),
                 (''document_context'', itemgetter ''document_context'')])
             (prompt_runnable (rag_prompt self)))
          (llm_runnable lib (llm self)))
       (StrOutputParser lib)"

definition fallback :: string where
  "fallback =
     ''I encountered an error trying to find the answer. Please try rephrasing your question.''"

text \<open>
  \<open>answer_user_query\<close> returns what the caller sees (\<open>Inr\<close> a returned string, \<open>Inl\<close> an
  exception that leaves the method), the service object after the call, and the world
  after the call.  \<^verbatim>\<open>except Exception\<close> handles exactly the instances of
  \<^verbatim>\<open>Exception\<close>; any other exception propagates.  The handler formats the log line
  and prints it before it returns; an exception raised by either step leaves the method.
\<close>

definition answer_user_query ::
  "library \<Rightarrow> RAGService \<Rightarrow> string \<Rightarrow> string \<Rightarrow> world \<Rightarrow> (exn + string) \<times> RAGService \<times> world" where
  "answer_user_query lib self document_text user_question w =
     (case rag_chain lib self
             [''question'' \<mapsto> user_question, ''document_context'' \<mapsto> document_text] w of
        (Inr response, w') \<Rightarrow> (Inr response, self, w')
      | (Inl e, w') \<Rightarrow>
          if isinstance_Exception e
          then
            (case py_str lib e of
               Inl e' \<Rightarrow> (Inl e', self, w')
             | Inr s \<Rightarrow>
                 (case print lib (''Error in RAG chain: '' @ s) w' of
                    (Some e', w'') \<Rightarrow> (Inl e', self, w'')
                  | (None, w'') \<Rightarrow> (Inr fallback, self, w'')))
          else (Inl e, self, w'))"

section \<open>What the specification says, as definitions\<close>

text \<open>
  The specification describes the pipeline as five steps run one after another: retrieve
  with the question, join the chunks, fill the template, call the model, parse its
  output.  \<open>pipeline_steps\<close> is that description; the theorems below compare the
  source's chain with it.
\<close>

definition pipeline_steps :: "library \<Rightarrow> RAGService \<Rightarrow> string \<Rightarrow> string \<Rightarrow> exn + string" where
  "pipeline_steps lib self document_text user_question =
     (case retriever_invoke lib (retriever self) user_question of
        Inl e \<Rightarrow> Inl e
      | Inr docs \<Rightarrow>
          (case py_format (rag_prompt self)
                  [''document_context'' \<mapsto> document_text, ''question'' \<mapsto> user_question,
                   ''rag_context'' \<mapsto> format_docs docs] of
             Inl e \<Rightarrow> Inl e
           | Inr prompt \<Rightarrow>
               (case llm_invoke lib (llm self) prompt of
                  Inl e \<Rightarrow> Inl e
                | Inr message \<Rightarrow> parser_invoke lib message)))"

text \<open>
  The specification's picture of the assembled prompt: the persona and the instruction
  list, then three labelled sections, then the cue for the answer.
\<close>

definition prompt_instructions :: string where
  "prompt_instructions =
     ''\<newline>'' @
     ''        You are \"LawGeeks\", a specialized AI assistant. Your goal is to answer a user's specific question about their legal document, using *only* the provided context.\<newline>'' @
     ''        \<newline>'' @
     ''        You have been given three pieces of information:\<newline>'' @
     ''        1.  **THE USER'S DOCUMENT**: The full text of their agreement.\<newline>'' @
     ''        2.  **RELEVANT LEGAL CONTEXT**: Snippets from Indian law (e.g., The Contract Act, RERA) that are relevant to the user's question.\<newline>'' @
     ''        3.  **THE USER'S QUESTION**: The specific question the user asked.\<newline>'' @
     ''\<newline>'' @
     ''        **INSTRUCTIONS:**\<newline>'' @
     ''        1.  First, analyze the **USER'S DOCUMENT** to find clauses that relate to the **USER'S QUESTION**.\<newline>'' @
     ''        2.  Next, use the **RELEVANT LEGAL CONTEXT** to understand the standard legal position or definitions.\<newline>'' @
     ''        3.  Combine these insights to provide a clear, simple, and direct answer.\<newline>'' @
     ''        4.  If the user's document is silent on the issue, say so.\<newline>'' @
     ''        5.  If the user's document *contradicts* the legal context, point this out (e.g., \"Your document states X, which is unusual as the standard legal position is Y...\").\<newline>'' @
     ''        6.  **DO NOT** make up information. If the answer cannot be found in the provided texts, state that you cannot answer.\<newline>'' @
     ''        7.  **DO NOT** provide legal advice. Frame your answer as \"This clause appears to mean...\" or \"This document states...\".\<newline>'' @
     ''\<newline>'' @
     ''        ---\<newline>''"

definition prompt_cue :: string where
  "prompt_cue =
     ''\<newline>'' @
     ''        **Your Answer:**\<newline>'' @
     ''        ''"

definition labelled_section :: "string \<Rightarrow> string \<Rightarrow> string" where
  "labelled_section label body =
     ''        **'' @ label @ '':**\<newline>'' @
     ''        '' @ body @ ''\<newline>'' @
     ''        ---\<newline>''"

definition expected_prompt :: "string \<Rightarrow> string \<Rightarrow> string \<Rightarrow> string" where
  "expected_prompt d c q =
     prompt_instructions @
     labelled_section ''THE USER'S DOCUMENT'' d @
     labelled_section ''RELEVANT LEGAL CONTEXT'' c @
     labelled_section ''THE USER'S QUESTION'' q @
     prompt_cue"

text \<open>
  Modelled from the spec: the retriever adapter over the vector index (third-party code,
  not in the sources).  Section 4.1 of the specification: given a query string, it
  returns an ordered sequence of the \<open>k\<close> most similar indexed chunks, per the index's
  own similarity metric, with no filtering, no deduplication and no threshold; a failure
  of the index propagates.  \<open>index db query\<close> is the index's ranking of its chunks for
  the query, most similar first.
\<close>

definition retriever_adapter ::
  "(vectordb \<Rightarrow> string \<Rightarrow> exn + document list) \<Rightarrow> retriever \<Rightarrow> string \<Rightarrow> exn + document list" where
  "retriever_adapter index r query =
     (case index (vectorstore r) query of
        Inl e \<Rightarrow> Inl e
      | Inr ranked \<Rightarrow> Inr (take (search_kwargs_k r) ranked))"

text \<open>What one call added to the record of calls, and the projections of that record.\<close>

definition calls_made :: "world \<Rightarrow> (exn + string) \<times> RAGService \<times> world \<Rightarrow> call list" where
  "calls_made w out = drop (length (calls w)) (calls (snd (snd out)))"

fun retriever_queries :: "call list \<Rightarrow> (retriever \<times> string) list" where
  "retriever_queries [] = []"
| "retriever_queries (RetrieverCall r query # cs) = (r, query) # retriever_queries cs"
| "retriever_queries (ModelCall l prompt # cs) = retriever_queries cs"

fun model_calls :: "call list \<Rightarrow> (llm \<times> string) list" where
  "model_calls [] = []"
| "model_calls (RetrieverCall r query # cs) = model_calls cs"
| "model_calls (ModelCall l prompt # cs) = (l, prompt) # model_calls cs"

subsection \<open>Stub collaborators for concrete runs\<close>

text \<open>
  A library whose constructors accept everything, whose index holds a fixed ranked list
  of chunks of which the retriever hands out the first \<open>k\<close>, whose model answers with a
  fixed outcome, whose parser returns the message text, whose exceptions print the
  string they carry, and whose standard output accepts every write.
\<close>

definition stub_index :: "document list \<Rightarrow> vectordb \<Rightarrow> string \<Rightarrow> exn + document list" where
  "stub_index ranked db query = Inr ranked"

fun stub_exn_str :: "exn \<Rightarrow> exn + string" where
  "stub_exn_str (ValueError m) = Inr m"
| "stub_exn_str (KeyError k) = Inr k"
| "stub_exn_str (UpstreamError m) = Inr m"
| "stub_exn_str KeyboardInterrupt = Inr []"
| "stub_exn_str SystemExit = Inr []"

definition stub_library :: "document list \<Rightarrow> exn + string \<Rightarrow> library" where
  "stub_library ranked reply =
     \<lparr>embeddings_error = (\<lambda>args. None),
      chroma_error = (\<lambda>args. None),
      llm_error = (\<lambda>args. None),
      retriever_invoke = retriever_adapter (stub_index ranked),
      llm_invoke = (\<lambda>l prompt. reply),
      parser_invoke = (\<lambda>message. Inr message),
      exn_str = stub_exn_str,
      stdout_failure = (\<lambda>contents text. None)\<rparr>"

definition example_chunks :: "document list" where
  "example_chunks =
     [\<lparr>page_content = ''RERA Section 5 requires X'', metadata = [(''source'', ''rera.pdf'')]\<rparr>,
      \<lparr>page_content = ''Contract Act Section 10'', metadata = [(''source'', ''contract.pdf'')]\<rparr>,
      \<lparr>page_content = ''Contract Act Section 23'', metadata = []\<rparr>,
      \<lparr>page_content = ''Contract Act Section 73'', metadata = []\<rparr>]"

definition example_environ :: "string \<rightharpoonup> string" where
  "example_environ = [''GOOGLE_API_KEY'' \<mapsto> ''key'']"

definition example_service :: RAGService where
  "example_service =
     \<lparr>api_key = ''key'',
      embeddings = \<lparr>emb_model = ''models/embedding-001'', emb_google_api_key = ''key''\<rparr>,
      vectordb =
        \<lparr>persist_directory = ''vector_db'',
         embedding_function =
           \<lparr>emb_model = ''models/embedding-001'', emb_google_api_key = ''key''\<rparr>\<rparr>,
      retriever =
        \<lparr>vectorstore =
           \<lparr>persist_directory = ''vector_db'',
            embedding_function =
              \<lparr>emb_model = ''models/embedding-001'', emb_google_api_key = ''key''\<rparr>\<rparr>,
         search_kwargs_k = 3\<rparr>,
      llm =
        \<lparr>llm_model = ''models/gemini-pro-latest'', llm_google_api_key = ''key'',
         temperature = 3 / 10\<rparr>,
      rag_prompt = rag_prompt_template\<rparr>"

definition empty_world :: world where
  "empty_world = \<lparr>stdout = [], calls = []\<rparr>"

section \<open>Lemmas about the formatter and the chain\<close>

lemma py_format_text:
  "CHR ''{'' \<notin> set xs \<Longrightarrow> CHR ''}'' \<notin> set xs \<Longrightarrow>
   py_format (xs @ ys) vars =
     (case py_format ys vars of Inl e \<Rightarrow> Inl e | Inr out \<Rightarrow> Inr (xs @ out))"
  by (induction xs) (auto split: sum.splits)

lemma field_name_plain:
  "CHR ''}'' \<notin> set n \<Longrightarrow> field_name (n @ CHR ''}'' # rest) = Some (n, rest)"
  by (induction n) auto

lemma py_format_field:
  assumes "CHR ''}'' \<notin> set n" "n \<noteq> []" "hd n \<noteq> CHR ''{''" "vars n = Some v"
  shows "py_format (CHR ''{'' # n @ CHR ''}'' # rest) vars =
     (case py_format rest vars of Inl e \<Rightarrow> Inl e | Inr out \<Rightarrow> Inr (v @ out))"
proof -
  obtain c cs where n: "n = c # cs"
    using assms(2) by (cases n) auto
  have "field_name ((c # cs) @ CHR ''}'' # rest) = Some (c # cs, rest)"
    using field_name_plain[of n rest] assms(1) n by simp
  then show ?thesis
    using assms n by (simp del: field_name.simps)
qed

lemma template_split:
  "rag_prompt_template =
     (prompt_instructions @ ''        **THE USER'S DOCUMENT:**\<newline>        '') @
     CHR ''{'' # ''document_context'' @ CHR ''}'' #
     (''\<newline>        ---\<newline>        **RELEVANT LEGAL CONTEXT:**\<newline>        '') @
     CHR ''{'' # ''rag_context'' @ CHR ''}'' #
     (''\<newline>        ---\<newline>        **THE USER'S QUESTION:**\<newline>        '') @
     CHR ''{'' # ''question'' @ CHR ''}'' #
     (''\<newline>        ---\<newline>'' @ prompt_cue) @ []"
  by (simp add: rag_prompt_template_def prompt_instructions_def prompt_cue_def)

lemma no_brace_instructions:
  "CHR ''{'' \<notin> set prompt_instructions" "CHR ''}'' \<notin> set prompt_instructions"
  by (simp_all add: prompt_instructions_def)

lemma no_brace_cue:
  "CHR ''{'' \<notin> set prompt_cue" "CHR ''}'' \<notin> set prompt_cue"
  by (simp_all add: prompt_cue_def)

lemma py_format_template:
  assumes "vars ''document_context'' = Some d" "vars ''rag_context'' = Some c"
    "vars ''question'' = Some q"
  shows "py_format rag_prompt_template vars = Inr (expected_prompt d c q)"
  unfolding template_split
  apply (subst py_format_text)
    apply (simp add: no_brace_instructions)
   apply (simp add: no_brace_instructions)
  apply (subst py_format_field)
      apply simp
     apply simp
    apply simp
   apply (rule assms)
  apply (subst py_format_text)
    apply simp
   apply simp
  apply (subst py_format_field)
      apply simp
     apply simp
    apply simp
   apply (rule assms)
  apply (subst py_format_text)
    apply simp
   apply simp
  apply (subst py_format_field)
      apply simp
     apply simp
    apply simp
   apply (rule assms)
  apply (subst py_format_text)
    apply (simp add: no_brace_cue)
   apply (simp add: no_brace_cue)
  apply (simp add: expected_prompt_def labelled_section_def)
  done

lemma rag_chain_steps:
  "rag_chain lib self [''question'' \<mapsto> q, ''document_context'' \<mapsto> d] w =
     (case retriever_invoke lib (retriever self) q of
        Inl e \<Rightarrow> (Inl e, w\<lparr>calls := calls w @ [RetrieverCall (retriever self) q]\<rparr>)
      | Inr docs \<Rightarrow>
          (case py_format (rag_prompt self)
                  [''document_context'' \<mapsto> d, ''question'' \<mapsto> q,
                   ''rag_context'' \<mapsto> format_docs docs] of
             Inl e \<Rightarrow> (Inl e, w\<lparr>calls := calls w @ [RetrieverCall (retriever self) q]\<rparr>)
           | Inr p \<Rightarrow>
               (case llm_invoke lib (llm self) p of
                  Inl e \<Rightarrow>
                    (Inl e,
                     w\<lparr>calls := calls w @
                        [RetrieverCall (retriever self) q, ModelCall (llm self) p]\<rparr>)
                | Inr m \<Rightarrow>
                    (parser_invoke lib m,
                     w\<lparr>calls := calls w @
                        [RetrieverCall (retriever self) q, ModelCall (llm self) p]\<rparr>))))"
  by (simp add: rag_chain_def pipe_def itemgetter_def retriever_runnable_def
      format_docs_runnable_def prompt_runnable_def llm_runnable_def StrOutputParser_def
      split: sum.splits)

lemma init_Inr:
  assumes "init lib environ = Inr self"
  shows "search_kwargs_k (retriever self) = 3" "temperature (llm self) = 3 / 10"
    "rag_prompt self = rag_prompt_template" "environ ''GOOGLE_API_KEY'' = Some (api_key self)"
    "api_key self \<noteq> []"
  using assms
  by (auto simp: init_def GoogleGenerativeAIEmbeddings_def Chroma_def ChatGoogleGenerativeAI_def
      as_retriever_def split: option.splits if_splits sum.splits)

lemma init_example:
  "init (stub_library ranked reply) example_environ = Inr example_service"
  by (simp add: init_def stub_library_def example_environ_def example_service_def
      GoogleGenerativeAIEmbeddings_def Chroma_def ChatGoogleGenerativeAI_def as_retriever_def
      VECTOR_DB_DIR_def)

lemma answer_result:
  "fst (answer_user_query lib self d q w) =
     (case pipeline_steps lib self d q of
        Inr text \<Rightarrow> Inr text
      | Inl e \<Rightarrow>
          if isinstance_Exception e then
            (case py_str lib e of
               Inl e' \<Rightarrow> Inl e'
             | Inr s \<Rightarrow>
                 (case stdout_failure lib (stdout w)
                         (''Error in RAG chain: '' @ s @ ''\<newline>'') of
                    None \<Rightarrow> Inr fallback
                  | Some (e', left) \<Rightarrow> Inl e'))
          else Inl e)"
  by (simp add: answer_user_query_def rag_chain_steps pipeline_steps_def print_def
      split: sum.splits option.splits)


lemma answer_log_failure:
  assumes "pipeline_steps lib self d q = Inl e" "isinstance_Exception e"
  shows "py_str lib e = Inl e' \<Longrightarrow> fst (answer_user_query lib self d q w) = Inl e'"
    and "py_str lib e = Inr s \<Longrightarrow>
      stdout_failure lib (stdout w) (''Error in RAG chain: '' @ s @ ''\<newline>'') = Some (e', left) \<Longrightarrow>
      fst (answer_user_query lib self d q w) = Inl e'"
  using assms by (simp_all add: answer_result)

lemma answer_self: "fst (snd (answer_user_query lib self d q w)) = self"
  by (simp add: answer_user_query_def split: sum.splits prod.splits option.splits)

lemma answer_calls:
  "calls_made w (answer_user_query lib self d q w) =
     (case retriever_invoke lib (retriever self) q of
        Inl e \<Rightarrow> [RetrieverCall (retriever self) q]
      | Inr docs \<Rightarrow>
          (case py_format (rag_prompt self)
                  [''document_context'' \<mapsto> d, ''question'' \<mapsto> q,
                   ''rag_context'' \<mapsto> format_docs docs] of
             Inl e \<Rightarrow> [RetrieverCall (retriever self) q]
           | Inr p \<Rightarrow> [RetrieverCall (retriever self) q, ModelCall (llm self) p]))"
  by (simp add: answer_user_query_def rag_chain_steps calls_made_def print_def
      split: sum.splits option.splits)

lemma str_join_Cons:
  "str_join sep (x # xs) = x @ concat (map (\<lambda>y. sep @ y) xs)"
  by (induction xs arbitrary: x) simp_all


lemma answer_calls_stub:
  "calls_made w (answer_user_query (stub_library ranked reply) example_service d q w) =
     [RetrieverCall (retriever example_service) q,
      ModelCall (llm example_service) (expected_prompt d (format_docs (take 3 ranked)) q)]"
  by (simp add: answer_calls stub_library_def retriever_adapter_def stub_index_def
      example_service_def py_format_template)


lemma sublist_between: "p = a @ x @ b \<Longrightarrow> sublist x p"
  by simp

lemma expected_prompt_contains:
  "sublist d (expected_prompt d c q)" "sublist c (expected_prompt d c q)"
  "sublist q (expected_prompt d c q)"
proof -
  show "sublist d (expected_prompt d c q)"
    by (rule sublist_between
        [where a = "prompt_instructions @ ''        **THE USER'S DOCUMENT:**\<newline>        ''"
          and b = "''\<newline>        ---\<newline>'' @ labelled_section ''RELEVANT LEGAL CONTEXT'' c @
            labelled_section ''THE USER'S QUESTION'' q @ prompt_cue"])
      (simp add: expected_prompt_def labelled_section_def)
  show "sublist c (expected_prompt d c q)"
    by (rule sublist_between
        [where a = "prompt_instructions @ labelled_section ''THE USER'S DOCUMENT'' d @
            ''        **RELEVANT LEGAL CONTEXT:**\<newline>        ''"
          and b = "''\<newline>        ---\<newline>'' @
            labelled_section ''THE USER'S QUESTION'' q @ prompt_cue"])
      (simp add: expected_prompt_def labelled_section_def)
  show "sublist q (expected_prompt d c q)"
    by (rule sublist_between
        [where a = "prompt_instructions @ labelled_section ''THE USER'S DOCUMENT'' d @
            labelled_section ''RELEVANT LEGAL CONTEXT'' c @
            ''        **THE USER'S QUESTION:**\<newline>        ''"
          and b = "''\<newline>        ---\<newline>'' @ prompt_cue"])
      (simp add: expected_prompt_def labelled_section_def)
qed

section \<open>The context formatter: claims C3, C7, C8\<close>

text \<open>
  C3.  The context formatter joins the chunk texts with the separator
  \<^verbatim>\<open>"\n\n---\n\n"\<close> between consecutive chunks and adds nothing else: the empty sequence
  gives the empty string, two chunks with texts A and B give A, the separator, B, and in
  general the first text is followed by each further text prefixed by the separator.
\<close>

theorem format_docs_separator:
  "format_docs [] = [] \<and>
   format_docs [a, b] =
     page_content a @ ''\<newline>\<newline>---\<newline>\<newline>'' @ page_content b \<and>
   format_docs (d # ds) =
     page_content d @
     concat (map (\<lambda>x. ''\<newline>\<newline>---\<newline>\<newline>'' @ page_content x) ds)"
  by (simp add: format_docs_def str_join_Cons comp_def)

theorem format_docs_separator_witness:
  "format_docs [\<lparr>page_content = ''A'', metadata = []\<rparr>, \<lparr>page_content = ''B'', metadata = []\<rparr>] =
     ''A\<newline>\<newline>---\<newline>\<newline>B'' \<and>
   format_docs (take 3 example_chunks) =
     ''RERA Section 5 requires X\<newline>\<newline>---\<newline>\<newline>Contract Act Section 10\<newline>\<newline>---\<newline>\<newline>Contract Act Section 23''"
  using format_docs_separator[of "\<lparr>page_content = ''A'', metadata = []\<rparr>"
      "\<lparr>page_content = ''B'', metadata = []\<rparr>" "hd example_chunks"
      "take 2 (tl example_chunks)"]
  by (simp add: example_chunks_def)

text \<open>
  C7.  On a sequence of one chunk the formatter returns that chunk's text unchanged; no
  separator is emitted.
\<close>

theorem format_docs_singleton: "format_docs [d] = page_content d"
  by (simp add: format_docs_def)

theorem format_docs_singleton_witness:
  "format_docs
     [\<lparr>page_content = ''RERA Section 5 requires X'', metadata = [(''source'', ''rera.pdf'')]\<rparr>] =
   ''RERA Section 5 requires X''"
  using format_docs_singleton
    [of "\<lparr>page_content = ''RERA Section 5 requires X'', metadata = [(''source'', ''rera.pdf'')]\<rparr>"]
  by simp

text \<open>
  C8.  The context block depends only on the texts of the chunks: two retrieval results
  with the same texts in the same order, whatever their metadata, are formatted alike.
\<close>

theorem format_docs_ignores_metadata:
  "map page_content docs = map page_content docs' \<Longrightarrow> format_docs docs = format_docs docs'"
  by (simp add: format_docs_def)

theorem format_docs_ignores_metadata_witness:
  "format_docs [\<lparr>page_content = ''A'', metadata = [(''source'', ''x.pdf'')]\<rparr>,
                \<lparr>page_content = ''B'', metadata = []\<rparr>] =
   format_docs [\<lparr>page_content = ''A'', metadata = [(''page'', ''7'')]\<rparr>,
                \<lparr>page_content = ''B'', metadata = [(''source'', ''y.pdf'')]\<rparr>]"
  by (rule format_docs_ignores_metadata) simp

section \<open>Construction: claims C2, C9\<close>

text \<open>
  C2.  When \<^verbatim>\<open>GOOGLE_API_KEY\<close> is absent from the environment, the constructor raises
  \<^verbatim>\<open>ValueError("GOOGLE_API_KEY not set.")\<close>: the exception leaves the constructor and
  no service object is produced, whatever the libraries would have done.
\<close>

theorem init_missing_credential:
  "environ ''GOOGLE_API_KEY'' = None \<Longrightarrow>
     init lib environ = Inl (ValueError ''GOOGLE_API_KEY not set.'') \<and>
     (\<forall>self. init lib environ \<noteq> Inr self)"
  by (simp add: init_def)

theorem init_missing_credential_witness:
  "init (stub_library example_chunks (Inr ''ok'')) Map.empty =
     Inl (ValueError ''GOOGLE_API_KEY not set.'')"
  using init_missing_credential[of Map.empty "stub_library example_chunks (Inr ''ok'')"]
  by simp

text \<open>
  C9.  A credential that is set but empty is rejected exactly as an absent one: the
  constructor raises the same \<^verbatim>\<open>ValueError\<close>, and its outcome is the outcome it has
  with the variable removed from the environment.
\<close>

theorem init_empty_credential:
  "environ ''GOOGLE_API_KEY'' = Some [] \<Longrightarrow>
     init lib environ = Inl (ValueError ''GOOGLE_API_KEY not set.'') \<and>
     init lib environ = init lib (environ(''GOOGLE_API_KEY'' := None))"
  by (simp add: init_def)

theorem init_empty_credential_witness:
  "init (stub_library example_chunks (Inr ''ok'')) [''GOOGLE_API_KEY'' \<mapsto> []] =
     Inl (ValueError ''GOOGLE_API_KEY not set.'')"
  using init_empty_credential
    [of "[''GOOGLE_API_KEY'' \<mapsto> []]" "stub_library example_chunks (Inr ''ok'')"]
  by simp

section \<open>The answer pipeline: claims C1, C10\<close>




text \<open>
  C10.  A call never changes the service object: on the success path and on the fallback
  path alike the object after the call is the object before it, field by field, so a
  later call runs against the same configuration.
\<close>

theorem answer_user_query_frame:
  "answer_user_query lib self d q w = (res, self', w') \<Longrightarrow>
     self' = self \<and>
     api_key self' = api_key self \<and> embeddings self' = embeddings self \<and>
     vectordb self' = vectordb self \<and> retriever self' = retriever self \<and>
     llm self' = llm self \<and> rag_prompt self' = rag_prompt self \<and>
     answer_user_query lib self' d2 q2 w' = answer_user_query lib self d2 q2 w'"
  using answer_self[of lib self d q w] by simp

theorem answer_user_query_frame_witness:
  "fst (snd (answer_user_query (stub_library example_chunks (Inr ''ok'')) example_service
               ''doc'' ''q'' empty_world)) = example_service \<and>
   fst (snd (answer_user_query (stub_library example_chunks (Inl (UpstreamError ''down'')))
               example_service ''doc'' ''q'' empty_world)) = example_service"
proof -
  let ?ok = "answer_user_query (stub_library example_chunks (Inr ''ok'')) example_service
               ''doc'' ''q'' empty_world"
  let ?down = "answer_user_query (stub_library example_chunks (Inl (UpstreamError ''down'')))
               example_service ''doc'' ''q'' empty_world"
  have ok: "?ok = (fst ?ok, fst (snd ?ok), snd (snd ?ok))"
    by simp
  have down: "?down = (fst ?down, fst (snd ?down), snd (snd ?down))"
    by simp
  show ?thesis
    using answer_user_query_frame[OF ok] answer_user_query_frame[OF down] by simp
qed

section \<open>Retrieval, prompt and model configuration: claims C4, C5, C6\<close>

text \<open>
  C4.  For a service built by the constructor, the retriever is configured with
  \<open>k = 3\<close>; a call makes exactly one retrieval, whose query is the question, and the
  retrievals made do not depend on the document text.  With the retriever adapter the
  specification describes (\<open>retriever_adapter\<close> over any index), whatever the retrieval
  returns has at most 3 chunks, is the head of the index's ranking for the question,
  and enters the prompt joined in that order.
\<close>

theorem retrieval_by_question_top3:
  assumes "init lib environ = Inr self"
  shows "search_kwargs_k (retriever self) = 3 \<and>
    retriever_queries (calls_made w (answer_user_query lib self d q w)) = [(retriever self, q)] \<and>
    retriever_queries (calls_made w (answer_user_query lib self d' q w)) =
      retriever_queries (calls_made w (answer_user_query lib self d q w)) \<and>
    (retriever_invoke lib = retriever_adapter index \<longrightarrow>
       (\<forall>docs. retriever_invoke lib (retriever self) q = Inr docs \<longrightarrow>
          length docs \<le> 3 \<and>
          (\<exists>ranked. index (vectorstore (retriever self)) q = Inr ranked \<and>
             docs = take 3 ranked \<and> prefix docs ranked) \<and>
          model_calls (calls_made w (answer_user_query lib self d q w)) =
            [(llm self, expected_prompt d (format_docs docs) q)]))"
proof -
  have k: "search_kwargs_k (retriever self) = 3"
    using assms by (rule init_Inr)
  have queries: "retriever_queries (calls_made w (answer_user_query lib self x q w)) =
      [(retriever self, q)]" for x
    by (simp add: answer_calls split: sum.splits)
  have prompt: "model_calls (calls_made w (answer_user_query lib self d q w)) =
      [(llm self, expected_prompt d (format_docs docs) q)]"
    if "retriever_invoke lib (retriever self) q = Inr docs" for docs
    using that init_Inr(3)[OF assms] by (simp add: answer_calls py_format_template)
  have top: "length docs \<le> 3 \<and>
      (\<exists>ranked. index (vectorstore (retriever self)) q = Inr ranked \<and>
         docs = take 3 ranked \<and> prefix docs ranked)"
    if "retriever_invoke lib = retriever_adapter index"
      and "retriever_invoke lib (retriever self) q = Inr docs" for docs
    using that k by (auto simp: retriever_adapter_def take_is_prefix split: sum.splits)
  show ?thesis
    using k queries prompt top by simp
qed

theorem retrieval_by_question_top3_witness:
  "search_kwargs_k (retriever example_service) = 3 \<and>
   retriever_queries (calls_made empty_world
      (answer_user_query (stub_library example_chunks (Inr ''ok'')) example_service
         ''my agreement'' ''Is the deposit refundable?'' empty_world)) =
     [(retriever example_service, ''Is the deposit refundable?'')] \<and>
   retriever_invoke (stub_library example_chunks (Inr ''ok'')) =
     retriever_adapter (stub_index example_chunks) \<and>
   length example_chunks = 4 \<and>
   retriever_invoke (stub_library example_chunks (Inr ''ok'')) (retriever example_service)
      ''Is the deposit refundable?'' = Inr (take 3 example_chunks) \<and>
   length (take 3 example_chunks) = 3 \<and>
   model_calls (calls_made empty_world
      (answer_user_query (stub_library example_chunks (Inr ''ok'')) example_service
         ''my agreement'' ''Is the deposit refundable?'' empty_world)) =
     [(llm example_service,
       expected_prompt ''my agreement'' (format_docs (take 3 example_chunks))
         ''Is the deposit refundable?'')]"
proof -
  have a: "retriever_invoke (stub_library example_chunks (Inr ''ok'')) =
      retriever_adapter (stub_index example_chunks)"
    by (simp add: stub_library_def)
  have r: "retriever_invoke (stub_library example_chunks (Inr ''ok'')) (retriever example_service)
      ''Is the deposit refundable?'' = Inr (take 3 example_chunks)"
    by (simp add: stub_library_def retriever_adapter_def stub_index_def example_service_def)
  have l: "length example_chunks = 4" "length (take 3 example_chunks) = 3"
    by (simp_all add: example_chunks_def)
  show ?thesis
    using retrieval_by_question_top3[OF init_example[of example_chunks "Inr ''ok''"],
        where w = empty_world and d = "''my agreement''" and d' = "''my agreement''"
          and q = "''Is the deposit refundable?''" and index = "stub_index example_chunks"]
      a r l
    by (simp add: example_service_def)
qed

text \<open>
  C5.  For every document text, context and question, the prompt assembled from the
  service's template is the instruction block, then the section labelled
  THE USER'S DOCUMENT holding the document text, the section labelled
  RELEVANT LEGAL CONTEXT holding the context, the section labelled
  THE USER'S QUESTION holding the question, then the answer cue; each of the three
  strings occurs in it verbatim.
\<close>

theorem assembled_prompt_sections:
  assumes "init lib environ = Inr self"
  shows "\<exists>p. prompt_runnable (rag_prompt self)
            [''rag_context'' \<mapsto> c, ''question'' \<mapsto> q, ''document_context'' \<mapsto> d] w =
            (Inr p, w) \<and>
          p = prompt_instructions @
              labelled_section ''THE USER'S DOCUMENT'' d @
              labelled_section ''RELEVANT LEGAL CONTEXT'' c @
              labelled_section ''THE USER'S QUESTION'' q @
              prompt_cue \<and>
          sublist d p \<and> sublist c p \<and> sublist q p"
proof -
  have "prompt_runnable (rag_prompt self)
      [''rag_context'' \<mapsto> c, ''question'' \<mapsto> q, ''document_context'' \<mapsto> d] w =
      (Inr (expected_prompt d c q), w)"
    using init_Inr(3)[OF assms] by (simp add: prompt_runnable_def py_format_template)
  then show ?thesis
    by (intro exI[of _ "expected_prompt d c q"] conjI expected_prompt_def
        expected_prompt_contains)
qed

theorem assembled_prompt_sections_witness:
  "prompt_runnable (rag_prompt example_service)
     [''rag_context'' \<mapsto> ''RERA Section 5 requires X'', ''question'' \<mapsto> ''Who pays?'',
      ''document_context'' \<mapsto> ''Tenant pays rent.''] empty_world =
   (Inr (prompt_instructions @
      ''        **THE USER'S DOCUMENT:**\<newline>'' @
      ''        Tenant pays rent.\<newline>'' @
      ''        ---\<newline>'' @
      ''        **RELEVANT LEGAL CONTEXT:**\<newline>'' @
      ''        RERA Section 5 requires X\<newline>'' @
      ''        ---\<newline>'' @
      ''        **THE USER'S QUESTION:**\<newline>'' @
      ''        Who pays?\<newline>'' @
      ''        ---\<newline>'' @
      prompt_cue), empty_world)"
  using assembled_prompt_sections[OF init_example[of example_chunks "Inr ''ok''"],
      where c = "''RERA Section 5 requires X''" and q = "''Who pays?''"
        and d = "''Tenant pays rent.''" and w = empty_world]
  by (auto simp: labelled_section_def)

text \<open>
  C6.  The chat model client of a constructed service has temperature 0.3, and every
  model call a query makes goes through that client: no other temperature reaches the
  model.
\<close>

theorem model_calls_temperature:
  assumes "init lib environ = Inr self"
  shows "temperature (llm self) = 3 / 10 \<and>
    set (map fst (model_calls (calls_made w (answer_user_query lib self d q w)))) \<subseteq> {llm self} \<and>
    set (map (\<lambda>(l, p). temperature l)
           (model_calls (calls_made w (answer_user_query lib self d q w)))) \<subseteq> {3 / 10}"
  using init_Inr(2)[OF assms] by (simp add: answer_calls split: sum.splits)

theorem model_calls_temperature_witness:
  "temperature (llm example_service) = 3 / 10 \<and>
   map (\<lambda>(l, p). temperature l)
     (model_calls (calls_made empty_world
        (answer_user_query (stub_library example_chunks (Inr ''ok'')) example_service
           ''doc'' ''q'' empty_world))) = [3 / 10]"
  using model_calls_temperature[OF init_example[of example_chunks "Inr ''ok''"],
      where w = empty_world and d = "''doc''" and q = "''q''"]
  by (simp add: answer_calls_stub)

end
